theory Spec2Isabelle
  imports Main "HOL-Library.AList" "HOL-Library.Word"
begin

section \<open>Python strings\<close>

text \<open>
  A Python \<^verbatim>\<open>str\<close> is modelled as a \<^typ>\<open>string\<close> whose characters are the code
  points below 256. \<^verbatim>\<open>str.isspace\<close> on those code points is true for
  U+0009..U+000D, U+001C..U+0020, U+0085 and U+00A0.
\<close>

definition isspace :: "char \<Rightarrow> bool" where
  "isspace c = (let n = (of_char c :: nat) in
     (9 \<le> n \<and> n \<le> 13) \<or> (28 \<le> n \<and> n \<le> 32) \<or> n = 133 \<or> n = 160)"

text \<open>\<^verbatim>\<open>s.strip()\<close>: drop the whitespace at both ends.\<close>

definition strip :: "string \<Rightarrow> string" where
  "strip s = rev (dropWhile isspace (rev (dropWhile isspace s)))"

definition startswith :: "string \<Rightarrow> string \<Rightarrow> bool" where
  "startswith s p = (take (length p) s = p)"

definition endswith :: "string \<Rightarrow> string \<Rightarrow> bool" where
  "endswith s p = (take (length p) (rev s) = rev p)"

abbreviation newline :: char where
  "newline \<equiv> CHR 0x0A"

text \<open>\<^verbatim>\<open>s.split("\n")\<close>: always at least one piece, empty pieces kept.\<close>

fun split_nl :: "string \<Rightarrow> string list" where
  "split_nl [] = [[]]"
| "split_nl (c # cs) =
     (if c = newline then [] # split_nl cs
      else (case split_nl cs of
              [] \<Rightarrow> [[c]]
            | l # ls \<Rightarrow> (c # l) # ls))"

text \<open>\<^verbatim>\<open>"\n".join(xs)\<close>.\<close>

fun join_nl :: "string list \<Rightarrow> string" where
  "join_nl [] = []"
| "join_nl [l] = l"
| "join_nl (l # ls) = l @ newline # join_nl ls"

text \<open>\<^verbatim>\<open>" ".join(xs)\<close>.\<close>

fun join_space :: "string list \<Rightarrow> string" where
  "join_space [] = []"
| "join_space [l] = l"
| "join_space (l # ls) = l @ CHR '' '' # join_space ls"

text \<open>The slice \<^verbatim>\<open>xs[1:-1]\<close>: empty when \<^verbatim>\<open>xs\<close> has at most two elements.\<close>

definition slice_1_m1 :: "'a list \<Rightarrow> 'a list" where
  "slice_1_m1 xs = butlast (tl xs)"

definition fence :: string where
  "fence = [CHR 0x60, CHR 0x60, CHR 0x60]"

section \<open>JSON values\<close>

text \<open>
  What \<^verbatim>\<open>json.loads\<close> returns: \<^verbatim>\<open>None\<close>, \<^verbatim>\<open>bool\<close>, \<^verbatim>\<open>int\<close>, \<^verbatim>\<open>float\<close> (its 64 bits),
  \<^verbatim>\<open>str\<close>, \<^verbatim>\<open>list\<close> and \<^verbatim>\<open>dict\<close>. A dict is an association list read with
  \<^const>\<open>map_of\<close> and written with \<^const>\<open>AList.update\<close>, which replaces the binding of
  a key that is present and appends the binding otherwise, as assignment to
  \<^verbatim>\<open>d[k]\<close> does.
\<close>

datatype json =
    JNull
  | JBool bool
  | JInt int
  | JFloat "64 word"
  | JStr string
  | JArr "json list"
  | JObj "(string \<times> json) list"

section \<open>The schema: \<^verbatim>\<open>Rule\<close> and \<^verbatim>\<open>Guideline\<close>\<close>

text \<open>
  \<^verbatim>\<open>
  class Rule(BaseModel):
      rule_id: str
      rule_text: str
      operator: Optional[str] = None
      rules: Optional[List["Rule"]] = None

  class Guideline(BaseModel):
      title: str
      insurance_name: str
      rules: Rule
  \<close>
  The field \<^verbatim>\<open>rules\<close> of \<^verbatim>\<open>Rule\<close> is the selector \<open>rules_Rule\<close>: the name
  \<open>rules\<close> is the field of \<^verbatim>\<open>Guideline\<close>.
\<close>

datatype Rule =
  Rule (rule_id: string) (rule_text: string) (operator: "string option")
       (rules_Rule: "Rule list option")

record Guideline =
  title :: string
  insurance_name :: string
  rules :: Rule

subsection \<open>Validation of a field\<close>

text \<open>
  The argument is the dict's entry for the field (\<open>None\<close>: the key is absent), the
  result is \<open>None\<close> when the field is in error. A \<^verbatim>\<open>str\<close> field takes a \<^verbatim>\<open>str\<close> and
  nothing else that \<^verbatim>\<open>json.loads\<close> can produce (numbers are not coerced); a required
  field that is absent is an error; an \<^verbatim>\<open>Optional\<close> field with default \<^verbatim>\<open>None\<close> that
  is absent, or \<^verbatim>\<open>null\<close>, is \<^verbatim>\<open>None\<close>.
\<close>

fun validate_str :: "json option \<Rightarrow> string option" where
  "validate_str (Some (JStr s)) = Some s"
| "validate_str _ = None"

fun validate_optional_str :: "json option \<Rightarrow> string option option" where
  "validate_optional_str None = Some None"
| "validate_optional_str (Some JNull) = Some None"
| "validate_optional_str (Some (JStr s)) = Some (Some s)"
| "validate_optional_str _ = None"

text \<open>All entries of a list validated: the list of results, or \<open>None\<close> if one failed.\<close>

fun those_valid :: "'a option list \<Rightarrow> 'a list option" where
  "those_valid [] = Some []"
| "those_valid (None # _) = None"
| "those_valid (Some x # xs) = (case those_valid xs of None \<Rightarrow> None | Some ys \<Rightarrow> Some (x # ys))"

subsection \<open>\<^verbatim>\<open>Rule.model_validate\<close>\<close>

text \<open>
  A \<^verbatim>\<open>Rule\<close> is validated from a dict; keys that are not fields are ignored
  (\<^verbatim>\<open>extra='ignore'\<close>, the default). \<open>None\<close> stands for \<^verbatim>\<open>ValidationError\<close>.

  The class refers to itself, and the validator guards every such reference against
  runaway recursion: it counts the references to \<^verbatim>\<open>Rule\<close> it is inside of, and a
  reference that brings the count to the limit fails with the validation error
  \<^verbatim>\<open>recursion_loop\<close>. The limit is 255 (CPython, on platforms other than Windows).
  The entries of a \<^verbatim>\<open>rules\<close> list are such references, and so is the field
  \<^verbatim>\<open>rules\<close> of \<^verbatim>\<open>Guideline\<close>. The first argument of \<open>validate_Rule_at\<close> is the count
  at the rule being validated.
\<close>

definition RECURSION_GUARD_LIMIT :: nat where
  "RECURSION_GUARD_LIMIT = 255"

function validate_Rule_at :: "nat \<Rightarrow> json \<Rightarrow> Rule option" where
  "validate_Rule_at d (JObj kvs) =
     (case validate_str (map_of kvs ''rule_id'') of
        None \<Rightarrow> None
      | Some rid \<Rightarrow>
     (case validate_str (map_of kvs ''rule_text'') of
        None \<Rightarrow> None
      | Some rtext \<Rightarrow>
     (case validate_optional_str (map_of kvs ''operator'') of
        None \<Rightarrow> None
      | Some opr \<Rightarrow>
     (case map_of kvs ''rules'' of
        None \<Rightarrow> Some (Rule rid rtext opr None)
      | Some JNull \<Rightarrow> Some (Rule rid rtext opr None)
      | Some (JArr xs) \<Rightarrow>
          (case those_valid
                  (map (\<lambda>x. if RECURSION_GUARD_LIMIT \<le> Suc d then None
                            else validate_Rule_at (Suc d) x) xs) of
             None \<Rightarrow> None
           | Some rs \<Rightarrow> Some (Rule rid rtext opr (Some rs)))
      | Some _ \<Rightarrow> None))))"
| "validate_Rule_at d JNull = None"
| "validate_Rule_at d (JBool _) = None"
| "validate_Rule_at d (JInt _) = None"
| "validate_Rule_at d (JFloat _) = None"
| "validate_Rule_at d (JStr _) = None"
| "validate_Rule_at d (JArr _) = None"
  by pat_completeness auto
termination
proof (relation "measure (\<lambda>(d, j). size j)")
  show "wf (measure (\<lambda>(d, j). size j))" by simp
next
  fix d :: nat and kvs :: "(string \<times> json) list" and x2 xs z
  assume lookup: "map_of kvs ''rules'' = Some x2" and arr: "x2 = JArr xs" and mem: "z \<in> set xs"
  have "size v < Suc (size_list (size_prod (\<lambda>_. 0) size) kvs)"
    if "map_of kvs k = Some v" for k :: string and v :: json
    using that by (induction kvs) (auto split: if_splits)
  from this [OF lookup] arr
  have "size (JArr xs) < Suc (size_list (size_prod (\<lambda>_. 0) size) kvs)" by simp
  moreover have "size z < size (JArr xs)"
    using mem by (induction xs) auto
  ultimately show "((Suc d, z), (d, JObj kvs)) \<in> measure (\<lambda>(d, j). size j)" by simp
qed

text \<open>A reference to \<^verbatim>\<open>Rule\<close> met when the count is \<open>d\<close>.\<close>

definition validate_Rule_ref :: "nat \<Rightarrow> json \<Rightarrow> Rule option" where
  "validate_Rule_ref d x =
     (if RECURSION_GUARD_LIMIT \<le> Suc d then None else validate_Rule_at (Suc d) x)"


subsection \<open>\<^verbatim>\<open>Guideline.model_validate\<close>\<close>

fun validate_Guideline :: "json \<Rightarrow> Guideline option" where
  "validate_Guideline (JObj kvs) =
     (case validate_str (map_of kvs ''title'') of
        None \<Rightarrow> None
      | Some t \<Rightarrow>
     (case validate_str (map_of kvs ''insurance_name'') of
        None \<Rightarrow> None
      | Some i \<Rightarrow>
     (case map_of kvs ''rules'' of
        None \<Rightarrow> None
      | Some j \<Rightarrow>
     (case validate_Rule_ref 0 j of
        None \<Rightarrow> None
      | Some r \<Rightarrow> Some \<lparr>title = t, insurance_name = i, rules = r\<rparr>))))"
| "validate_Guideline _ = None"

section \<open>The parsed document\<close>

text \<open>
  What \<^verbatim>\<open>BeautifulSoup(text, 'html.parser')\<close> builds: tags with a name, attributes and
  children, and strings. The attribute \<^verbatim>\<open>class\<close> is multi-valued (a list of class
  names), the others hold one string. A string is a plain \<^verbatim>\<open>NavigableString\<close>, a
  \<^verbatim>\<open>CData\<close>, a \<^verbatim>\<open>Comment\<close>, or one of the other subclasses (doctype, declaration,
  processing instruction, the text of \<^verbatim>\<open>script\<close>, \<^verbatim>\<open>style\<close> and \<^verbatim>\<open>template\<close>).
  The tags of \<^verbatim>\<open>html.parser\<close> have no namespace prefix.
\<close>

datatype attr = Single string | Multi "string list"

datatype str_kind = NavigableString | CData | Comment | OtherString

datatype node =
    Tag (name: string) (attrs: "(string \<times> attr) list") (contents: "node list")
  | Str str_kind string

text \<open>
  \<^verbatim>\<open>tag.descendants\<close> in document order, and the elements of a whole document in
  document order: every element is followed by its descendants, then by what comes
  after it. \<^verbatim>\<open>el.next_elements\<close> is the part of that list after \<^verbatim>\<open>el\<close>.
\<close>

fun elements :: "node \<Rightarrow> node list" where
  "elements (Tag n as cs) = Tag n as cs # concat (map elements cs)"
| "elements (Str k s) = [Str k s]"

definition descendants :: "node \<Rightarrow> node list" where
  "descendants nd = tl (elements nd)"

definition document_elements :: "node list \<Rightarrow> node list" where
  "document_elements soup = concat (map elements soup)"

text \<open>
  \<^verbatim>\<open>tag.string\<close>: the only child if it is a string (of any kind), the \<^verbatim>\<open>.string\<close> of
  the only child if it is a tag, \<^verbatim>\<open>None\<close> when there are no or several children.
\<close>

fun string_of :: "node \<Rightarrow> string option" where
  "string_of (Tag n as [c]) = string_of c"
| "string_of (Tag n as cs) = None"
| "string_of (Str k s) = Some s"

text \<open>
  How a search value matches an attribute: an absent attribute never matches a
  non-empty string; a multi-valued attribute matches when one of its values is the
  string, or when the values joined by spaces are.
\<close>

fun matches_attr :: "attr option \<Rightarrow> string \<Rightarrow> bool" where
  "matches_attr None v = (v = [])"
| "matches_attr (Some (Single s)) v = (s = v)"
| "matches_attr (Some (Multi ss)) v = (v \<in> set ss \<or> join_space ss = v)"

text \<open>The filter of \<^verbatim>\<open>soup.find("h2", class_="policyHead", string="Policy")\<close>.\<close>

fun is_policy_header :: "node \<Rightarrow> bool" where
  "is_policy_header (Tag n as cs) =
     (n = ''h2'' \<and> matches_attr (map_of as ''class'') ''policyHead''
      \<and> string_of (Tag n as cs) = Some ''Policy'')"
| "is_policy_header (Str k s) = False"

text \<open>The filter of \<^verbatim>\<open>find_next("ol")\<close>.\<close>

fun is_ol :: "node \<Rightarrow> bool" where
  "is_ol (Tag n as cs) = (n = ''ol'')"
| "is_ol (Str k s) = False"

text \<open>
  \<^verbatim>\<open>tag.get_text(separator="\n")\<close>: the descendant strings of type
  \<^verbatim>\<open>NavigableString\<close> or \<^verbatim>\<open>CData\<close>, unstripped, joined by the separator.
\<close>

fun text_strings :: "node list \<Rightarrow> string list" where
  "text_strings [] = []"
| "text_strings (Str NavigableString s # ns) = s # text_strings ns"
| "text_strings (Str CData s # ns) = s # text_strings ns"
| "text_strings (_ # ns) = text_strings ns"

definition get_text :: "node \<Rightarrow> string" where
  "get_text nd = join_nl (text_strings (descendants nd))"

section \<open>Exceptions, the outside world\<close>

text \<open>
  The three \<^verbatim>\<open>ValueError\<close>s the program raises, by message:
  \<^verbatim>\<open>"Policy header not found."\<close>,
  \<^verbatim>\<open>"Ordered list not found after the Policy header."\<close> and
  \<^verbatim>\<open>f"Error processing output from OpenAI: {e}"\<close>, where \<^verbatim>\<open>e\<close> is the
  \<^verbatim>\<open>json.JSONDecodeError\<close> or the pydantic \<^verbatim>\<open>ValidationError\<close> that was caught.
  The other exceptions are raised by the interpreter or by the libraries; among them
  the plain \<^verbatim>\<open>ValueError\<close> of \<^verbatim>\<open>json.loads\<close>,
  \<^verbatim>\<open>"Exceeds the limit (4300 digits) for integer string conversion"\<close>.
\<close>

datatype cause = JSONDecodeError | ValidationError

datatype value_error =
    Policy_header_not_found
  | Ordered_list_not_found
  | Error_processing_output cause
  | Exceeds_the_limit_for_integer_string_conversion

datatype error =
    ValueError value_error
  | TypeError
  | IndexError
  | AttributeError
  | RecursionError
  | RequestException
  | OpenAIError

text \<open>
  The three ways \<^verbatim>\<open>json.loads\<close> fails on a \<^verbatim>\<open>str\<close>: \<^verbatim>\<open>JSONDecodeError\<close> on text
  that is not JSON; a plain \<^verbatim>\<open>ValueError\<close> when it converts an integer literal of
  more digits than the interpreter's limit, which it does as soon as it has read the
  literal; \<^verbatim>\<open>RecursionError\<close> when arrays and objects are nested too deep.
\<close>

datatype loads_failure =
    Raises_JSONDecodeError
  | Raises_ValueError
  | Raises_RecursionError

record request =
  model :: string
  messages :: "(string \<times> string) list"

datatype printed =
    Structured_JSON_Output Guideline
  | An_error_occurred error

text \<open>
  What the program does to the outside: the pages it requested (URL and headers), the
  requests it sent to the language model, what it printed.
\<close>

record world =
  http_log :: "(string \<times> (string \<times> string) list) list"
  lm_log :: "request list"
  stdout :: "printed list"

text \<open>
  The libraries and services the program calls, as parameters:
  \<^item> \<open>requests_get\<close>: \<^verbatim>\<open>requests.get\<close> followed by \<^verbatim>\<open>raise_for_status\<close>; the text of
    the response, \<open>None\<close> when either raises;
  \<^item> \<open>BeautifulSoup\<close>: the parser, from markup to the top-level nodes of the document;
  \<^item> \<open>json_loads\<close>: \<^verbatim>\<open>json.loads\<close>, the value or the way it fails;
  \<^item> \<open>chat_completions_create\<close>: \<^verbatim>\<open>client.chat.completions.create\<close>; the
    \<^verbatim>\<open>message.content\<close> of each choice of the response (\<^verbatim>\<open>None\<close> is possible), \<open>None\<close>
    when the call raises.
  The two services may answer differently at each call: they see the world.
\<close>

record env =
  requests_get :: "world \<Rightarrow> string \<Rightarrow> (string \<times> string) list \<Rightarrow> string option"
  BeautifulSoup :: "string \<Rightarrow> node list"
  json_loads :: "string \<Rightarrow> loads_failure + json"
  chat_completions_create :: "world \<Rightarrow> request \<Rightarrow> string option list option"

section \<open>Step 1: \<^verbatim>\<open>fetch_aetna_guidelines\<close>\<close>

definition headers :: "(string \<times> string) list" where
  "headers = [(''User-Agent'',
     ''Mozilla/5.0 (Windows NT 10.0; Win64; x64) '' @
     ''AppleWebKit/537.36 (KHTML, like Gecko) '' @
     ''Chrome/115.0.0.0 Safari/537.36'')]"

text \<open>
  Lines 53 to 64, on the parsed document: \<^verbatim>\<open>soup.find\<close> returns the first element in
  document order that passes the filter, \<^verbatim>\<open>header.find_next("ol")\<close> the first
  \<^verbatim>\<open>ol\<close> among the elements after the header.
\<close>

definition extract_policy_text :: "node list \<Rightarrow> error + string" where
  "extract_policy_text soup =
     (case dropWhile (\<lambda>e. \<not> is_policy_header e) (document_elements soup) of
        [] \<Rightarrow> Inl (ValueError Policy_header_not_found)
      | header # next_elements \<Rightarrow>
          (case find is_ol next_elements of
             None \<Rightarrow> Inl (ValueError Ordered_list_not_found)
           | Some ol \<Rightarrow> Inr (strip (get_text ol))))"

definition fetch_aetna_guidelines :: "env \<Rightarrow> world \<Rightarrow> string \<Rightarrow> (error + string) \<times> world" where
  "fetch_aetna_guidelines ev w url =
     (let w1 = w\<lparr>http_log := http_log w @ [(url, headers)]\<rparr> in
      case requests_get ev w url headers of
        None \<Rightarrow> (Inl RequestException, w1)
      | Some response_text \<Rightarrow> (extract_policy_text (BeautifulSoup ev response_text), w1))"

section \<open>Step 2: \<^verbatim>\<open>extract_rules_with_openai\<close>\<close>

definition MODEL :: string where
  "MODEL = ''gpt-4o''"

abbreviation dq :: char where
  "dq \<equiv> CHR 0x22"

definition prompt :: "string \<Rightarrow> string" where
  "prompt text = join_nl
     ['''',
      ''        Act as an NLP expert. Extract the medical necessity guidelines from the text provided below'',
      ''        and convert them into a structured JSON object that conforms exactly to the following schema:'',
      '''',
      ''        Schema:'',
      ''        {'',
      ''            '' @ dq # ''title'' @ dq # '': string,'',
      ''            '' @ dq # ''insurance_name'' @ dq # '': string,'',
      ''            '' @ dq # ''rules'' @ dq # '': {'',
      ''                '' @ dq # ''rule_id'' @ dq # '': string,'',
      ''                '' @ dq # ''rule_text'' @ dq # '': string,'',
      ''                '' @ dq # ''operator'' @ dq # '': string or null,'',
      ''                '' @ dq # ''rules'' @ dq # '': list of nested rules or null'',
      ''            }'',
      ''        }'',
      '''',
      ''        The text to be referenced is:'',
      ''        '' @ text,
      '''',
      ''        Output only the JSON.'',
      ''    '']"

definition chat_request :: "string \<Rightarrow> request" where
  "chat_request text =
     \<lparr>model = MODEL,
      messages =
        [(''system'', ''You are an NLP expert that extracts and transforms unstructured text into JSON.''),
         (''user'', prompt text)]\<rparr>"

text \<open>
  Lines 111 to 114: the content stripped, and without its first and last lines when it
  begins and ends with a fence.
\<close>

definition strip_markdown :: "string \<Rightarrow> string" where
  "strip_markdown content =
     (let result = strip content in
      if startswith result fence \<and> endswith result fence
      then strip (join_nl (slice_1_m1 (split_nl result)))
      else result)"

text \<open>
  Lines 119 to 122, on the parsed value. Assigning to a key of anything but a dict
  raises \<^verbatim>\<open>TypeError\<close>, at the root and at \<^verbatim>\<open>data["rules"]\<close>.
\<close>

definition override_values :: "json \<Rightarrow> string \<Rightarrow> string \<Rightarrow> error + json" where
  "override_values data guideline_title insurance =
     (case data of
        JObj kvs \<Rightarrow>
          (let kvs1 = AList.update ''title'' (JStr guideline_title) kvs;
               kvs2 = AList.update ''insurance_name'' (JStr insurance) kvs1
           in case map_of kvs2 ''rules'' of
                None \<Rightarrow> Inr (JObj kvs2)
              | Some (JObj rkvs) \<Rightarrow>
                  Inr (JObj (AList.update ''rules''
                    (JObj (AList.update ''rule_text'' (JStr ''Medical Necessity'') rkvs)) kvs2))
              | Some _ \<Rightarrow> Inl TypeError)
      | _ \<Rightarrow> Inl TypeError)"

text \<open>
  Lines 116 to 127: the \<^verbatim>\<open>try\<close> block. \<^verbatim>\<open>JSONDecodeError\<close> and \<^verbatim>\<open>ValidationError\<close> are
  caught and raised again as \<^verbatim>\<open>ValueError\<close>; any other exception passes through, the
  plain \<^verbatim>\<open>ValueError\<close> and the \<^verbatim>\<open>RecursionError\<close> of \<^verbatim>\<open>json.loads\<close> included.
\<close>

definition process_result :: "env \<Rightarrow> string \<Rightarrow> string \<Rightarrow> string \<Rightarrow> error + Guideline" where
  "process_result ev result guideline_title insurance =
     (case json_loads ev result of
        Inl Raises_JSONDecodeError \<Rightarrow> Inl (ValueError (Error_processing_output JSONDecodeError))
      | Inl Raises_ValueError \<Rightarrow> Inl (ValueError Exceeds_the_limit_for_integer_string_conversion)
      | Inl Raises_RecursionError \<Rightarrow> Inl RecursionError
      | Inr data \<Rightarrow>
          (case override_values data guideline_title insurance of
             Inl e \<Rightarrow> Inl e
           | Inr data' \<Rightarrow>
               (case validate_Guideline data' of
                  None \<Rightarrow> Inl (ValueError (Error_processing_output ValidationError))
                | Some guideline \<Rightarrow> Inr guideline)))"

text \<open>
  Line 111 on the response: \<^verbatim>\<open>response.choices[0]\<close> raises \<^verbatim>\<open>IndexError\<close> on an empty
  list, \<^verbatim>\<open>.strip()\<close> on a content that is \<^verbatim>\<open>None\<close> raises \<^verbatim>\<open>AttributeError\<close>.
\<close>

definition process_response :: "env \<Rightarrow> string option list \<Rightarrow> string \<Rightarrow> string \<Rightarrow> error + Guideline" where
  "process_response ev choices guideline_title insurance =
     (case choices of
        [] \<Rightarrow> Inl IndexError
      | None # _ \<Rightarrow> Inl AttributeError
      | Some content # _ \<Rightarrow>
          process_result ev (strip_markdown content) guideline_title insurance)"

definition extract_rules_with_openai ::
  "env \<Rightarrow> world \<Rightarrow> string \<Rightarrow> string \<Rightarrow> string \<Rightarrow> (error + Guideline) \<times> world" where
  "extract_rules_with_openai ev w text guideline_title insurance =
     (let w1 = w\<lparr>lm_log := lm_log w @ [chat_request text]\<rparr> in
      case chat_completions_create ev w (chat_request text) of
        None \<Rightarrow> (Inl OpenAIError, w1)
      | Some choices \<Rightarrow> (process_response ev choices guideline_title insurance, w1))"

section \<open>\<^verbatim>\<open>main\<close>\<close>

definition url :: string where
  "url = ''https://www.aetna.com/cpb/medical/data/300_399/0369.html''"

definition print :: "printed \<Rightarrow> world \<Rightarrow> world" where
  "print out w = w\<lparr>stdout := stdout w @ [out]\<rparr>"

text \<open>Every exception of either step is caught and printed.\<close>

definition main :: "env \<Rightarrow> world \<Rightarrow> world" where
  "main ev w =
     (case fetch_aetna_guidelines ev w url of
        (Inl e, w1) \<Rightarrow> print (An_error_occurred e) w1
      | (Inr extracted_text, w1) \<Rightarrow>
          (case extract_rules_with_openai ev w1 extracted_text ''Chronic Fatigue Syndrome'' ''Aetna'' of
             (Inl e, w2) \<Rightarrow> print (An_error_occurred e) w2
           | (Inr guideline, w2) \<Rightarrow> print (Structured_JSON_Output guideline) w2))"

section \<open>Notions used to state the properties\<close>

fun is_dict :: "json \<Rightarrow> bool" where
  "is_dict (JObj kvs) = True"
| "is_dict _ = False"






text \<open>
  The reading of the specification's failure condition for the container: a heading
  of the same kind is an \<^verbatim>\<open>h2\<close> of class \<^verbatim>\<open>policyHead\<close>, with any text, and the
  container has to occur among the elements after the matching heading and before the
  next such heading.
\<close>

fun is_policy_heading_kind :: "node \<Rightarrow> bool" where
  "is_policy_heading_kind (Tag n as cs) =
     (n = ''h2'' \<and> matches_attr (map_of as ''class'') ''policyHead'')"
| "is_policy_heading_kind (Str k s) = False"

definition elements_before_next_heading :: "node list \<Rightarrow> node list" where
  "elements_before_next_heading soup =
     takeWhile (\<lambda>e. \<not> is_policy_heading_kind e)
       (tl (dropWhile (\<lambda>e. \<not> is_policy_header e) (document_elements soup)))"

section \<open>Example inputs\<close>

text \<open>
  Two pages and their parse trees, model responses and what \<^verbatim>\<open>json.loads\<close> makes
  of them. \<open>example_loads\<close> and \<open>example_soup\<close> stand for the libraries on these
  inputs only; the text \<^verbatim>\<open>not json at all\<close> is among those \<open>example_loads\<close> rejects
  with \<^verbatim>\<open>JSONDecodeError\<close>. The text \<open>long_integer_text\<close> is an opening bracket and
  5000 digits: \<^verbatim>\<open>json.loads\<close> raises the plain \<^verbatim>\<open>ValueError\<close> on it. The text
  \<open>deeply_nested_text\<close> is 100000 opening brackets: \<^verbatim>\<open>json.loads\<close> raises
  \<^verbatim>\<open>RecursionError\<close> on it. Neither text is JSON.
\<close>

definition policy_page :: string where
  \<open>policy_page =
     ''<h2 class="policyHead">Policy</h2><ol><li>Criterion A</li><li>Criterion B</li></ol>''\<close>

definition policy_soup :: "node list" where
  "policy_soup =
     [Tag ''h2'' [(''class'', Multi [''policyHead''])] [Str NavigableString ''Policy''],
      Tag ''ol'' [] [Tag ''li'' [] [Str NavigableString ''Criterion A''],
                     Tag ''li'' [] [Str NavigableString ''Criterion B'']]]"

definition plain_page :: string where
  \<open>plain_page = ''<h2>Policy</h2><p>Nothing here.</p>''\<close>

definition plain_soup :: "node list" where
  "plain_soup =
     [Tag ''h2'' [] [Str NavigableString ''Policy''],
      Tag ''p'' [] [Str NavigableString ''Nothing here.'']]"

definition example_soup :: "string \<Rightarrow> node list" where
  "example_soup markup =
     (if markup = policy_page then policy_soup
      else if markup = plain_page then plain_soup
      else [])"

definition minimal_response :: string where
  \<open>minimal_response = ''{"title": "?", "rules": {"rule_id": "1", "rule_text": "Criteria"}}''\<close>

definition minimal_data :: json where
  "minimal_data =
     JObj [(''title'', JStr ''?''),
           (''rules'', JObj [(''rule_id'', JStr ''1''), (''rule_text'', JStr ''Criteria'')])]"

definition long_integer_text :: string where
  "long_integer_text = CHR ''['' # replicate 5000 (CHR ''1'')"

definition deeply_nested_text :: string where
  "deeply_nested_text = CHR ''['' # replicate 99999 (CHR ''['')"

definition example_loads :: "string \<Rightarrow> loads_failure + json" where
  "example_loads s =
     (if s = minimal_response then Inr minimal_data
      else if s = ''[]'' then Inr (JArr [])
      else if s = long_integer_text then Inl Raises_ValueError
      else if s = deeply_nested_text then Inl Raises_RecursionError
      else Inl Raises_JSONDecodeError)"

definition example_env :: "string \<Rightarrow> string \<Rightarrow> env" where
  "example_env page answer =
     \<lparr>requests_get = (\<lambda>w u h. Some page),
      BeautifulSoup = example_soup,
      json_loads = example_loads,
      chat_completions_create = (\<lambda>w r. Some [Some answer])\<rparr>"

definition world0 :: world where
  "world0 = \<lparr>http_log = [], lm_log = [], stdout = []\<rparr>"

section \<open>Strings: splitting, joining, stripping\<close>

lemma split_nl_not_Nil: "split_nl s \<noteq> []"
  by (induction s) (auto split: list.splits)

lemma split_nl_no_newline: "newline \<notin> set s \<Longrightarrow> split_nl s = [s]"
  by (induction s) auto

lemma split_nl_append: "split_nl (a @ newline # b) = split_nl a @ split_nl b"
  by (induction a) (auto split: list.splits simp: split_nl_not_Nil)

lemma join_nl_Cons: "ls \<noteq> [] \<Longrightarrow> join_nl (l # ls) = l @ newline # join_nl ls"
  by (cases ls) auto

lemma join_split_nl: "join_nl (split_nl s) = s"
proof (induction s)
  case Nil
  show ?case by simp
next
  case (Cons c cs)
  show ?case
  proof (cases "c = newline")
    case True
    with Cons show ?thesis by (simp add: join_nl_Cons split_nl_not_Nil)
  next
    case False
    obtain l ls where sp: "split_nl cs = l # ls"
      using split_nl_not_Nil by (cases "split_nl cs") auto
    with Cons False show ?thesis
      by (cases ls) auto
  qed
qed

lemma slice_fenced: "slice_1_m1 ([a] @ xs @ [b]) = xs"
  by (simp add: slice_1_m1_def butlast_append)

lemma strip_tight:
  assumes "s \<noteq> []" "\<not> isspace (hd s)" "\<not> isspace (last s)"
  shows "strip s = s"
proof -
  from assms have "dropWhile isspace s = s" by (cases s) auto
  moreover from assms have "dropWhile isspace (rev s) = rev s"
    by (cases "rev s") (auto simp: last_rev [symmetric] hd_rev)
  ultimately show ?thesis by (simp add: strip_def)
qed

lemma isspace_backtick: "\<not> isspace (CHR 0x60)"
  by (simp add: isspace_def)

lemma strip_markdown_fenced:
  assumes "newline \<notin> set info"
  shows "strip_markdown (fence @ info @ newline # P @ newline # fence) = strip P"
proof -
  let ?r = "fence @ info @ newline # P @ newline # fence"
  have tight: "strip ?r = ?r"
    by (rule strip_tight) (simp_all add: fence_def isspace_backtick)
  have sw: "startswith ?r fence" by (simp add: startswith_def)
  have ew: "endswith ?r fence" by (simp add: endswith_def fence_def)
  have "newline \<notin> set (fence @ info)" using assms by (simp add: fence_def)
  then have first: "split_nl (fence @ info) = [fence @ info]" by (rule split_nl_no_newline)
  have last: "split_nl fence = [fence]" by (simp add: fence_def)
  have "split_nl ?r = split_nl (fence @ info) @ split_nl (P @ newline # fence)"
    using split_nl_append [of "fence @ info" "P @ newline # fence"] by simp
  also have "\<dots> = [fence @ info] @ split_nl P @ [fence]"
    by (simp add: first last split_nl_append)
  finally have "slice_1_m1 (split_nl ?r) = split_nl P"
    by (simp only: slice_fenced)
  with tight sw ew show ?thesis
    by (simp add: strip_markdown_def Let_def join_split_nl)
qed

lemma strip_markdown_unfenced:
  "\<not> startswith (strip P) fence \<Longrightarrow> strip_markdown P = strip P"
  by (simp add: strip_markdown_def Let_def)

lemma strip_markdown_minimal_response: "strip_markdown minimal_response = minimal_response"
  by (simp add: strip_markdown_def strip_def isspace_def startswith_def fence_def
        minimal_response_def)







section \<open>The validators\<close>

lemma validate_str_Some: "validate_str x = Some s \<longleftrightarrow> x = Some (JStr s)"
  by (cases x rule: validate_str.cases) auto

lemma validate_Rule_at_rule_text:
  "validate_Rule_at d (JObj kvs) = Some r \<Longrightarrow> map_of kvs ''rule_text'' = Some (JStr (rule_text r))"
  by (auto simp: validate_str_Some split: option.splits json.splits)

lemma validate_Guideline_fields:
  assumes "validate_Guideline (JObj kvs) = Some g"
  shows "map_of kvs ''title'' = Some (JStr (title g))"
    and "map_of kvs ''insurance_name'' = Some (JStr (insurance_name g))"
    and "\<exists>j. map_of kvs ''rules'' = Some j \<and> validate_Rule_ref 0 j = Some (rules g)"
  using assms by (auto simp: validate_str_Some split: option.splits)


















section \<open>The transformer\<close>

lemma process_result_normalized:
  assumes "process_result ev result t i = Inr g"
  shows "title g = t \<and> insurance_name g = i \<and> rule_text (rules g) = ''Medical Necessity''"
proof -
  from assms obtain data data' where
    ov: "override_values data t i = Inr data'" and v: "validate_Guideline data' = Some g"
    by (auto simp: process_result_def split: option.splits sum.splits loads_failure.splits)
  from ov obtain kvs where data: "data = JObj kvs"
    by (cases data) (auto simp: override_values_def)
  define kvs2 where "kvs2 = AList.update ''insurance_name'' (JStr i) (AList.update ''title'' (JStr t) kvs)"
  have t2: "map_of kvs2 ''title'' = Some (JStr t)" and i2: "map_of kvs2 ''insurance_name'' = Some (JStr i)"
    by (simp_all add: kvs2_def update_conv')
  show ?thesis
  proof (cases "map_of kvs2 ''rules''")
    case None
    with ov data have "data' = JObj kvs2"
      by (simp add: override_values_def kvs2_def Let_def)
    with v None show ?thesis
      using validate_Guideline_fields(3) by fastforce
  next
    case (Some j)
    with ov data obtain rkvs where j: "j = JObj rkvs"
      and d': "data' = JObj (AList.update ''rules''
                    (JObj (AList.update ''rule_text'' (JStr ''Medical Necessity'') rkvs)) kvs2)"
      by (cases j) (auto simp: override_values_def kvs2_def Let_def)
    from validate_Guideline_fields [OF v [unfolded d']]
    have "JStr (title g) = JStr t" "JStr (insurance_name g) = JStr i"
      and "validate_Rule_ref 0 (JObj (AList.update ''rule_text'' (JStr ''Medical Necessity'') rkvs))
             = Some (rules g)"
      by (simp_all add: update_conv' t2 i2)
    moreover from this(3)
    have "validate_Rule_at (Suc 0) (JObj (AList.update ''rule_text'' (JStr ''Medical Necessity'') rkvs))
             = Some (rules g)"
      by (simp add: validate_Rule_ref_def split: if_splits)
    ultimately show ?thesis
      using validate_Rule_at_rule_text by (fastforce simp: update_conv')
  qed
qed

lemma process_minimal_response:
  "process_result (example_env page answer) minimal_response t i =
     Inr \<lparr>title = t, insurance_name = i, rules = Rule ''1'' ''Medical Necessity'' None None\<rparr>"
  by (simp add: process_result_def example_env_def example_loads_def minimal_data_def
        override_values_def validate_Rule_ref_def RECURSION_GUARD_LIMIT_def)

section \<open>The extractor\<close>

lemma no_header:
  "\<forall>e \<in> set (document_elements soup). \<not> is_policy_header e
   \<Longrightarrow> extract_policy_text soup = Inl (ValueError Policy_header_not_found)"
  by (simp add: extract_policy_text_def dropWhile_eq_Nil_conv [THEN iffD2])

lemma find_is_None: "find P xs = None \<longleftrightarrow> (\<forall>x \<in> set xs. \<not> P x)"
  by (induction xs) auto

section \<open>Properties of the transformer\<close>

text \<open>
  Claim C1. Whenever \<^verbatim>\<open>extract_rules_with_openai\<close> returns a guideline, its title is
  the title the caller supplied, its insurance name is the payer the caller supplied,
  whatever the model wrote in those fields, and the rule text of its root rule is
  \<^verbatim>\<open>Medical Necessity\<close>.
\<close>

theorem transform_normalizes_fields:
  assumes "extract_rules_with_openai ev w text t i = (Inr g, w')"
  shows "title g = t \<and> insurance_name g = i \<and> rule_text (rules g) = ''Medical Necessity''"
proof -
  from assms obtain content where "process_result ev (strip_markdown content) t i = Inr g"
    by (auto simp: extract_rules_with_openai_def process_response_def Let_def
             split: option.splits list.splits)
  then show ?thesis by (rule process_result_normalized)
qed

theorem transform_normalizes_fields_witness:
  "extract_rules_with_openai (example_env policy_page minimal_response) world0
       ''Criterion A'' ''Chronic Fatigue Syndrome'' ''Aetna''
     = (Inr \<lparr>title = ''Chronic Fatigue Syndrome'', insurance_name = ''Aetna'',
              rules = Rule ''1'' ''Medical Necessity'' None None\<rparr>,
        world0\<lparr>lm_log := [chat_request ''Criterion A'']\<rparr>)
   \<and> title \<lparr>title = ''Chronic Fatigue Syndrome'', insurance_name = ''Aetna'',
              rules = Rule ''1'' ''Medical Necessity'' None None\<rparr> = ''Chronic Fatigue Syndrome''
   \<and> rule_text (rules \<lparr>title = ''Chronic Fatigue Syndrome'', insurance_name = ''Aetna'',
              rules = Rule ''1'' ''Medical Necessity'' None None\<rparr>) = ''Medical Necessity''"
proof -
  have run: "extract_rules_with_openai (example_env policy_page minimal_response) world0
       ''Criterion A'' ''Chronic Fatigue Syndrome'' ''Aetna''
     = (Inr \<lparr>title = ''Chronic Fatigue Syndrome'', insurance_name = ''Aetna'',
              rules = Rule ''1'' ''Medical Necessity'' None None\<rparr>,
        world0\<lparr>lm_log := [chat_request ''Criterion A'']\<rparr>)"
  proof -
    have "chat_completions_create (example_env policy_page minimal_response) world0
        (chat_request ''Criterion A'') = Some [Some minimal_response]"
      by (simp add: example_env_def)
    then show ?thesis
      by (simp add: extract_rules_with_openai_def process_response_def
            strip_markdown_minimal_response process_minimal_response world0_def)
  qed
  from transform_normalizes_fields [OF run] run show ?thesis by simp
qed




text \<open>
  Claim C4. A payload that does not begin with a fence, as no JSON text does, and the
  same payload between a first line made of a fence and an info string and a last line
  made of a fence, are stripped to the same text, and so give the same result,
  guideline or exception.
\<close>

theorem fence_stripping_same_result:
  assumes "newline \<notin> set info" and "\<not> startswith (strip P) fence"
  shows "strip_markdown (fence @ info @ newline # P @ newline # fence) = strip_markdown P
       \<and> process_response ev (Some (fence @ info @ newline # P @ newline # fence) # rest) t i
         = process_response ev (Some P # rest') t i"
  using assms by (simp add: strip_markdown_fenced strip_markdown_unfenced process_response_def)

theorem fence_stripping_same_result_witness:
  "newline \<notin> set ''json''
   \<and> \<not> startswith (strip minimal_response) fence
   \<and> strip_markdown (fence @ ''json'' @ newline # minimal_response @ newline # fence)
       = strip_markdown minimal_response
   \<and> process_response (example_env policy_page minimal_response)
         (Some (fence @ ''json'' @ newline # minimal_response @ newline # fence) # [])
         ''Chronic Fatigue Syndrome'' ''Aetna''
       = process_response (example_env policy_page minimal_response)
         (Some minimal_response # []) ''Chronic Fatigue Syndrome'' ''Aetna''"
proof -
  have info: "newline \<notin> set ''json''" by simp
  have payload: "\<not> startswith (strip minimal_response) fence"
    by (simp add: strip_def isspace_def startswith_def fence_def minimal_response_def)
  from fence_stripping_same_result [OF info payload] info payload
  show ?thesis by blast
qed



text \<open>
  Claim C10. When the content of the response is JSON for anything but an object, an
  array for instance, the transformer raises \<^verbatim>\<open>TypeError\<close>, which is neither of the
  \<^verbatim>\<open>ValueError\<close>s that wrap a decoding or a validation error.
\<close>

theorem non_object_json_raises_type_error:
  assumes "chat_completions_create ev w (chat_request text) = Some (Some content # rest)"
    and "json_loads ev (strip_markdown content) = Inr data"
    and "\<not> is_dict data"
  shows "fst (extract_rules_with_openai ev w text t i) = Inl TypeError
       \<and> fst (extract_rules_with_openai ev w text t i) \<noteq> Inl (ValueError (Error_processing_output c))"
  using assms
  by (cases data)
     (simp_all add: extract_rules_with_openai_def process_response_def process_result_def
        override_values_def Let_def)

theorem non_object_json_raises_type_error_witness:
  "chat_completions_create (example_env policy_page ''[]'') world0
       (chat_request ''Criterion A'') = Some (Some ''[]'' # [])
   \<and> json_loads (example_env policy_page ''[]'') (strip_markdown ''[]'') = Inr (JArr [])
   \<and> \<not> is_dict (JArr [])
   \<and> fst (extract_rules_with_openai (example_env policy_page ''[]'') world0
       ''Criterion A'' ''Chronic Fatigue Syndrome'' ''Aetna'') = Inl TypeError"
proof -
  have call: "chat_completions_create (example_env policy_page ''[]'') world0
       (chat_request ''Criterion A'') = Some (Some ''[]'' # [])"
    by (simp add: example_env_def)
  have stripped: "strip_markdown ''[]'' = ''[]''"
    by (simp add: strip_markdown_def strip_def isspace_def startswith_def fence_def)
  have parsed: "json_loads (example_env policy_page ''[]'') (strip_markdown ''[]'') = Inr (JArr [])"
    by (simp add: stripped example_env_def example_loads_def minimal_response_def)
  have array: "\<not> is_dict (JArr [])" by simp
  from non_object_json_raises_type_error [OF call parsed array] call parsed array
  show ?thesis by blast
qed

section \<open>Properties of the extractor and of the pipeline\<close>

text \<open>
  Claim C5. On the document made of \<^verbatim>\<open><h2 class="policyHead">Policy</h2>\<close> followed by
  \<^verbatim>\<open><ol><li>Criterion A</li><li>Criterion B</li></ol>\<close>, the extraction returns
  \<^verbatim>\<open>Criterion A\<close>, a newline and \<^verbatim>\<open>Criterion B\<close>.
\<close>

theorem extract_fixture:
  "extract_policy_text
     [Tag ''h2'' [(''class'', Multi [''policyHead''])] [Str NavigableString ''Policy''],
      Tag ''ol'' [] [Tag ''li'' [] [Str NavigableString ''Criterion A''],
                     Tag ''li'' [] [Str NavigableString ''Criterion B'']]]
   = Inr (''Criterion A'' @ newline # ''Criterion B'')"
  by (simp add: extract_policy_text_def document_elements_def get_text_def descendants_def
        strip_def isspace_def)

text \<open>
  Claim C2, as stated: when the matching heading exists and no \<^verbatim>\<open>ol\<close> occurs after it
  and before the next heading of the same kind, the extraction fails. It does not: in
  the document below the only \<^verbatim>\<open>ol\<close> comes after the next \<^verbatim>\<open>h2\<close> of class
  \<^verbatim>\<open>policyHead\<close>, and its text is returned.
\<close>

theorem find_next_passes_next_heading_counterexample:
  "find is_policy_header (document_elements
     [Tag ''h2'' [(''class'', Multi [''policyHead''])] [Str NavigableString ''Policy''],
      Tag ''p'' [] [Str NavigableString ''See below.''],
      Tag ''h2'' [(''class'', Multi [''policyHead''])] [Str NavigableString ''Background''],
      Tag ''ol'' [] [Tag ''li'' [] [Str NavigableString ''History'']]]) \<noteq> None
   \<and> find is_ol (elements_before_next_heading
     [Tag ''h2'' [(''class'', Multi [''policyHead''])] [Str NavigableString ''Policy''],
      Tag ''p'' [] [Str NavigableString ''See below.''],
      Tag ''h2'' [(''class'', Multi [''policyHead''])] [Str NavigableString ''Background''],
      Tag ''ol'' [] [Tag ''li'' [] [Str NavigableString ''History'']]]) = None
   \<and> extract_policy_text
     [Tag ''h2'' [(''class'', Multi [''policyHead''])] [Str NavigableString ''Policy''],
      Tag ''p'' [] [Str NavigableString ''See below.''],
      Tag ''h2'' [(''class'', Multi [''policyHead''])] [Str NavigableString ''Background''],
      Tag ''ol'' [] [Tag ''li'' [] [Str NavigableString ''History'']]] = Inr ''History''"
  by (simp add: extract_policy_text_def document_elements_def get_text_def descendants_def
        strip_def isspace_def elements_before_next_heading_def)

text \<open>
  Claim C2, amended. When the matching heading exists, the extraction fails with
  \<^verbatim>\<open>Ordered list not found after the Policy header.\<close> exactly when no \<^verbatim>\<open>ol\<close> occurs
  anywhere after the heading in document order; otherwise it returns the stripped
  text of the first \<^verbatim>\<open>ol\<close> after the heading, wherever later headings stand.
\<close>

theorem ordered_list_not_found_iff:
  assumes "dropWhile (\<lambda>e. \<not> is_policy_header e) (document_elements soup) = header # next_elements"
  shows "(extract_policy_text soup = Inl (ValueError Ordered_list_not_found)
            \<longleftrightarrow> (\<forall>e \<in> set next_elements. \<not> is_ol e))
       \<and> (\<forall>ol. find is_ol next_elements = Some ol
            \<longrightarrow> extract_policy_text soup = Inr (strip (get_text ol)))"
proof -
  have "extract_policy_text soup = Inl (ValueError Ordered_list_not_found)
        \<longleftrightarrow> find is_ol next_elements = None"
    using assms by (simp add: extract_policy_text_def split: option.splits)
  also have "\<dots> \<longleftrightarrow> (\<forall>e \<in> set next_elements. \<not> is_ol e)"
    by (rule find_is_None)
  finally have "extract_policy_text soup = Inl (ValueError Ordered_list_not_found)
        \<longleftrightarrow> (\<forall>e \<in> set next_elements. \<not> is_ol e)" .
  moreover have "\<forall>ol. find is_ol next_elements = Some ol
            \<longrightarrow> extract_policy_text soup = Inr (strip (get_text ol))"
    using assms by (simp add: extract_policy_text_def)
  ultimately show ?thesis by blast
qed

theorem ordered_list_not_found_iff_witness:
  "dropWhile (\<lambda>e. \<not> is_policy_header e) (document_elements
     [Tag ''h2'' [(''class'', Multi [''policyHead''])] [Str NavigableString ''Policy''],
      Tag ''h2'' [(''class'', Multi [''policyHead''])] [Str NavigableString ''Background''],
      Tag ''ol'' [] [Str NavigableString ''History'']])
   = Tag ''h2'' [(''class'', Multi [''policyHead''])] [Str NavigableString ''Policy'']
     # [Str NavigableString ''Policy'',
        Tag ''h2'' [(''class'', Multi [''policyHead''])] [Str NavigableString ''Background''],
        Str NavigableString ''Background'',
        Tag ''ol'' [] [Str NavigableString ''History''],
        Str NavigableString ''History'']
   \<and> find is_ol
       [Str NavigableString ''Policy'',
        Tag ''h2'' [(''class'', Multi [''policyHead''])] [Str NavigableString ''Background''],
        Str NavigableString ''Background'',
        Tag ''ol'' [] [Str NavigableString ''History''],
        Str NavigableString ''History'']
     = Some (Tag ''ol'' [] [Str NavigableString ''History''])
   \<and> extract_policy_text
     [Tag ''h2'' [(''class'', Multi [''policyHead''])] [Str NavigableString ''Policy''],
      Tag ''h2'' [(''class'', Multi [''policyHead''])] [Str NavigableString ''Background''],
      Tag ''ol'' [] [Str NavigableString ''History'']]
     = Inr (strip (get_text (Tag ''ol'' [] [Str NavigableString ''History''])))
   \<and> extract_policy_text
     [Tag ''h2'' [(''class'', Multi [''policyHead''])] [Str NavigableString ''Policy''],
      Tag ''h2'' [(''class'', Multi [''policyHead''])] [Str NavigableString ''Background''],
      Tag ''ol'' [] [Str NavigableString ''History'']]
     \<noteq> Inl (ValueError Ordered_list_not_found)"
proof -
  let ?soup = "[Tag ''h2'' [(''class'', Multi [''policyHead''])] [Str NavigableString ''Policy''],
      Tag ''h2'' [(''class'', Multi [''policyHead''])] [Str NavigableString ''Background''],
      Tag ''ol'' [] [Str NavigableString ''History'']]"
  let ?next = "[Str NavigableString ''Policy'',
        Tag ''h2'' [(''class'', Multi [''policyHead''])] [Str NavigableString ''Background''],
        Str NavigableString ''Background'',
        Tag ''ol'' [] [Str NavigableString ''History''],
        Str NavigableString ''History'']"
  have scan: "dropWhile (\<lambda>e. \<not> is_policy_header e) (document_elements ?soup)
      = Tag ''h2'' [(''class'', Multi [''policyHead''])] [Str NavigableString ''Policy''] # ?next"
    by (simp add: document_elements_def)
  have found: "find is_ol ?next = Some (Tag ''ol'' [] [Str NavigableString ''History''])"
    by simp
  have ol: "is_ol (Tag ''ol'' [] [Str NavigableString ''History''])
      \<and> Tag ''ol'' [] [Str NavigableString ''History''] \<in> set ?next"
    by simp
  from ordered_list_not_found_iff [OF scan] found ol scan show ?thesis
    by blast
qed

text \<open>
  Claim C7. When the page that was fetched has no element that passes the filter of
  the heading (an \<^verbatim>\<open>h2\<close> of class \<^verbatim>\<open>policyHead\<close> with the text \<^verbatim>\<open>Policy\<close>), the first
  step raises \<^verbatim>\<open>Policy header not found.\<close>, and \<^verbatim>\<open>main\<close> sends no request to the
  language model and prints that error.
\<close>

theorem missing_header_short_circuits:
  assumes "requests_get ev w url headers = Some html"
    and "\<forall>e \<in> set (document_elements (BeautifulSoup ev html)). \<not> is_policy_header e"
  shows "fst (fetch_aetna_guidelines ev w url) = Inl (ValueError Policy_header_not_found)
       \<and> lm_log (main ev w) = lm_log w
       \<and> stdout (main ev w) = stdout w @ [An_error_occurred (ValueError Policy_header_not_found)]"
  using assms
  by (simp add: fetch_aetna_guidelines_def main_def print_def no_header Let_def)

theorem missing_header_short_circuits_witness:
  "requests_get (example_env plain_page minimal_response) world0 url headers = Some plain_page
   \<and> filter is_policy_header (document_elements
          (BeautifulSoup (example_env plain_page minimal_response) plain_page)) = []
   \<and> fst (fetch_aetna_guidelines (example_env plain_page minimal_response) world0 url)
       = Inl (ValueError Policy_header_not_found)
   \<and> lm_log (main (example_env plain_page minimal_response) world0) = []
   \<and> stdout (main (example_env plain_page minimal_response) world0)
       = [An_error_occurred (ValueError Policy_header_not_found)]"
proof -
  have fetched: "requests_get (example_env plain_page minimal_response) world0 url headers
      = Some plain_page"
    by (simp add: example_env_def)
  have parsed: "BeautifulSoup (example_env plain_page minimal_response) plain_page = plain_soup"
    by (simp add: example_env_def example_soup_def plain_page_def policy_page_def)
  have none: "\<forall>e \<in> set (document_elements
          (BeautifulSoup (example_env plain_page minimal_response) plain_page)).
        \<not> is_policy_header e"
    by (simp add: parsed plain_soup_def document_elements_def)
  have start: "lm_log world0 = [] \<and> stdout world0 = []"
    by (simp add: world0_def)
  have filtered: "filter is_policy_header (document_elements
          (BeautifulSoup (example_env plain_page minimal_response) plain_page)) = []"
    by (simp add: parsed plain_soup_def document_elements_def)
  from missing_header_short_circuits [OF fetched none] fetched filtered start
  show ?thesis by simp
qed

text \<open>
  Claim C9. The text extracted depends on the markup only: two runs that fetch the
  same markup, in whatever state of the world and from whatever URL, return the same
  result, which is a function of the parsed markup; a run changes nothing in the world
  beyond the record of its request for the page.
\<close>

theorem extraction_deterministic:
  assumes "requests_get ev w u headers = Some html"
    and "requests_get ev w' u' headers = Some html"
  shows "fst (fetch_aetna_guidelines ev w u) = fst (fetch_aetna_guidelines ev w' u')
       \<and> fst (fetch_aetna_guidelines ev w u) = extract_policy_text (BeautifulSoup ev html)
       \<and> snd (fetch_aetna_guidelines ev w u) = w\<lparr>http_log := http_log w @ [(u, headers)]\<rparr>"
  using assms by (simp add: fetch_aetna_guidelines_def Let_def)

theorem extraction_deterministic_witness:
  "requests_get (example_env policy_page minimal_response) world0 url headers = Some policy_page
   \<and> requests_get (example_env policy_page minimal_response)
        (world0\<lparr>lm_log := [chat_request ''earlier'']\<rparr>) ''http://mirror.example/0369.html'' headers
       = Some policy_page
   \<and> fst (fetch_aetna_guidelines (example_env policy_page minimal_response) world0 url)
       = fst (fetch_aetna_guidelines (example_env policy_page minimal_response)
           (world0\<lparr>lm_log := [chat_request ''earlier'']\<rparr>) ''http://mirror.example/0369.html'')
   \<and> fst (fetch_aetna_guidelines (example_env policy_page minimal_response) world0 url)
       = Inr (''Criterion A'' @ newline # ''Criterion B'')"
proof -
  have first: "requests_get (example_env policy_page minimal_response) world0 url headers
      = Some policy_page"
    by (simp add: example_env_def)
  have second: "requests_get (example_env policy_page minimal_response)
        (world0\<lparr>lm_log := [chat_request ''earlier'']\<rparr>) ''http://mirror.example/0369.html'' headers
       = Some policy_page"
    by (simp add: example_env_def)
  have parsed: "BeautifulSoup (example_env policy_page minimal_response) policy_page = policy_soup"
    by (simp add: example_env_def example_soup_def)
  have extracted: "extract_policy_text policy_soup = Inr (''Criterion A'' @ newline # ''Criterion B'')"
    by (simp add: policy_soup_def extract_policy_text_def document_elements_def get_text_def
          descendants_def strip_def isspace_def)
  from extraction_deterministic [OF first second]
  have same: "fst (fetch_aetna_guidelines (example_env policy_page minimal_response) world0 url)
       = fst (fetch_aetna_guidelines (example_env policy_page minimal_response)
           (world0\<lparr>lm_log := [chat_request ''earlier'']\<rparr>) ''http://mirror.example/0369.html'')"
    and "fst (fetch_aetna_guidelines (example_env policy_page minimal_response) world0 url)
       = extract_policy_text (BeautifulSoup (example_env policy_page minimal_response) policy_page)"
    by blast+
  then have "fst (fetch_aetna_guidelines (example_env policy_page minimal_response) world0 url)
       = Inr (''Criterion A'' @ newline # ''Criterion B'')"
    by (simp only: parsed extracted)
  with first second same show ?thesis by blast
qed

section \<open>Properties of the schema\<close>




end
